theory Spec2Isabelle
  imports Main "HOL-Library.Word"
begin

section \<open>Go values, the heap of maps, errors\<close>

text \<open>
  A document store over an ordered key-value engine (package \<open>mingodb\<close>).  The package is a
  thin layer over three libraries: the engine \<open>bbolt\<close>, the codec \<open>bson\<close> and the
  struct flattener \<open>structs\<close>.  The engine is modelled by the part of its contract the
  package relies on; the codec, the flattener and the identifier generator are parameters
  (record \<open>env\<close>), so every theorem holds for any implementation of them.
\<close>

type_synonym bytes = "8 word list"
type_synonym addr = nat

text \<open>\<open>primitive.ObjectID\<close> is \<open>[12]byte\<close>: a value of exactly 96 bits.\<close>

type_synonym ObjectID = "96 word"

text \<open>
  The dynamic values an \<open>interface{}\<close> can hold.  A \<open>map[string]interface{}\<close> is a
  reference: \<open>VMap None\<close> is the nil map, \<open>VMap (Some a)\<close> points to the map object at
  address \<open>a\<close> of the heap.  \<open>VMapOther\<close> is a map of any other type (other key or element
  types, or a named type), identified by its type name.  \<open>VNil\<close> is the nil interface.
  The dynamic type is part of the value: \<open>VInt\<close> is a Go \<open>int\<close> (by its value), \<open>VInt32\<close> an
  \<open>int32\<close> and \<open>VInt64\<close> an \<open>int64\<close>; \<open>VSlice\<close> is a slice of any element type other than
  the codec's own \<open>primitive.A\<close>, which is \<open>VPrimitiveA\<close>.  Values of different dynamic
  types are different values, as they are for Go's \<open>==\<close> on interfaces and for
  \<open>reflect.DeepEqual\<close>.
\<close>

datatype val =
    VNil
  | VBool bool
  | VInt int
  | VInt32 "32 word"
  | VInt64 "64 word"
  | VString string
  | VObjectID ObjectID
  | VSlice "val list"
  | VPrimitiveA "val list"
  | VStruct "(string \<times> val) list"
  | VPtr addr
  | VMap "addr option"
  | VMapOther string

type_synonym fields = "string \<rightharpoonup> val"
type_synonym heap = "addr \<Rightarrow> fields"

datatype Kind =
    reflect_Bool | reflect_Int | reflect_Int32 | reflect_Int64 | reflect_String
  | reflect_Array | reflect_Slice | reflect_Struct | reflect_Ptr | reflect_Map

text \<open>\<open>reflect.TypeOf(v)\<close> is nil for the nil interface; otherwise the type has a kind.\<close>

fun reflect_TypeOf :: "val \<Rightarrow> Kind option" where
  "reflect_TypeOf VNil = None"
| "reflect_TypeOf (VBool _) = Some reflect_Bool"
| "reflect_TypeOf (VInt _) = Some reflect_Int"
| "reflect_TypeOf (VInt32 _) = Some reflect_Int32"
| "reflect_TypeOf (VInt64 _) = Some reflect_Int64"
| "reflect_TypeOf (VString _) = Some reflect_String"
| "reflect_TypeOf (VObjectID _) = Some reflect_Array"
| "reflect_TypeOf (VSlice _) = Some reflect_Slice"
| "reflect_TypeOf (VPrimitiveA _) = Some reflect_Slice"
| "reflect_TypeOf (VStruct _) = Some reflect_Struct"
| "reflect_TypeOf (VPtr _) = Some reflect_Ptr"
| "reflect_TypeOf (VMap _) = Some reflect_Map"
| "reflect_TypeOf (VMapOther _) = Some reflect_Map"

text \<open>The type assertion \<open>doc.(map[string]interface{})\<close>: the map and \<open>ok\<close>.\<close>

fun assert_map :: "val \<Rightarrow> addr option \<times> bool" where
  "assert_map (VMap m) = (m, True)"
| "assert_map _ = (None, False)"

text \<open>Reading \<open>m[k]\<close> (a nil map reads as empty) and writing \<open>m[k] = v\<close> (a nil map panics).\<close>

definition map_index :: "heap \<Rightarrow> addr option \<Rightarrow> string \<Rightarrow> val option" where
  "map_index h m k = (case m of None \<Rightarrow> None | Some a \<Rightarrow> h a k)"

definition map_assign :: "heap \<Rightarrow> addr option \<Rightarrow> string \<Rightarrow> val \<Rightarrow> heap option" where
  "map_assign h m k v = (case m of None \<Rightarrow> None | Some a \<Rightarrow> Some (h(a := (h a)(k \<mapsto> v))))"

datatype bolt_error =
    ErrDatabaseNotOpen | ErrBucketNameRequired | ErrBucketNotFound
  | ErrKeyRequired | ErrKeyTooLarge | ErrValueTooLarge

text \<open>
  Modelled from the spec: the error values \<open>ErrEmptyBucketName\<close> and \<open>ErrInvalidType\<close>, which
  the source returns but whose declarations are not in the source files.  They are the
  spec's \<open>EmptyNameError\<close> and \<open>InvalidTypeError\<close>, two errors of the package, distinct from
  each other and from the errors of the engine and of the codec.
  \<open>ErrDocumentNotFound\<close> is the source's \<open>errors.New("document not found")\<close>.  Errors of
  the engine and of the codec are passed on unchanged.
\<close>

datatype error =
    ErrEmptyBucketName
  | ErrInvalidType
  | ErrDocumentNotFound
  | ErrBolt bolt_error
  | ErrBson string

datatype panic = NilPointerDereference | AssignmentToNilMap

datatype 'a outcome = Return 'a | Fail error | Panic panic

section \<open>The engine\<close>

text \<open>
  The engine's contract as the package uses it: a database is open or closed and holds named
  buckets of key-value pairs.  \<open>Update\<close> and \<open>View\<close> refuse a closed database; \<open>Update\<close> commits
  the body's writes when the body returns nil and rolls back otherwise; \<open>Put\<close> refuses a blank
  key and an oversized key or value and otherwise replaces the value under the key.
  A body that panics leaves the database as it was.  Failures of the file system during a
  commit are not part of the model.
\<close>

type_synonym Bucket = "bytes \<rightharpoonup> bytes"
type_synonym Tx = "string \<rightharpoonup> Bucket"

record bolt_DB =
  opened :: bool
  buckets :: Tx

definition MaxKeySize :: nat where
  "MaxKeySize = 32768"

definition MaxValueSize :: nat where
  "MaxValueSize = 2 ^ 31 - 2"

definition DB_Update :: "bolt_DB \<Rightarrow> (Tx \<Rightarrow> Tx \<times> unit outcome) \<Rightarrow> bolt_DB \<times> unit outcome" where
  "DB_Update d fn =
     (if \<not> opened d then (d, Fail (ErrBolt ErrDatabaseNotOpen))
      else case fn (buckets d) of
             (tx', Return _) \<Rightarrow> (d\<lparr>buckets := tx'\<rparr>, Return ())
           | (_, Fail e) \<Rightarrow> (d, Fail e)
           | (_, Panic p) \<Rightarrow> (d, Panic p))"

definition DB_View :: "bolt_DB \<Rightarrow> (Tx \<Rightarrow> 'a outcome) \<Rightarrow> 'a outcome" where
  "DB_View d fn =
     (if \<not> opened d then Fail (ErrBolt ErrDatabaseNotOpen) else fn (buckets d))"

definition DB_Close :: "bolt_DB \<Rightarrow> bolt_DB" where
  "DB_Close d = d\<lparr>opened := False\<rparr>"

definition Tx_CreateBucketIfNotExists :: "Tx \<Rightarrow> string \<Rightarrow> Tx \<times> unit outcome" where
  "Tx_CreateBucketIfNotExists tx n =
     (if n = [] then (tx, Fail (ErrBolt ErrBucketNameRequired))
      else case tx n of
             Some _ \<Rightarrow> (tx, Return ())
           | None \<Rightarrow> (tx(n \<mapsto> Map.empty), Return ()))"

definition Tx_Bucket :: "Tx \<Rightarrow> string \<Rightarrow> Bucket option" where
  "Tx_Bucket tx n = tx n"

definition Tx_DeleteBucket :: "Tx \<Rightarrow> string \<Rightarrow> Tx \<times> unit outcome" where
  "Tx_DeleteBucket tx n =
     (case tx n of
        None \<Rightarrow> (tx, Fail (ErrBolt ErrBucketNotFound))
      | Some _ \<Rightarrow> (tx(n := None), Return ()))"

definition Bucket_Put :: "Bucket \<Rightarrow> bytes \<Rightarrow> bytes \<Rightarrow> error + Bucket" where
  "Bucket_Put b key v =
     (if length key = 0 then Inl (ErrBolt ErrKeyRequired)
      else if length key > MaxKeySize then Inl (ErrBolt ErrKeyTooLarge)
      else if length v > MaxValueSize then Inl (ErrBolt ErrValueTooLarge)
      else Inr (b(key \<mapsto> v)))"

definition Bucket_Get :: "Bucket \<Rightarrow> bytes \<Rightarrow> bytes option" where
  "Bucket_Get b key = b key"

section \<open>The world and the external functions\<close>

text \<open>
  The state: the heap of map objects, the engines by handle, and the number of identifiers
  generated so far.
\<close>

record world =
  heap :: heap
  engines :: "nat \<Rightarrow> bolt_DB"
  oid_calls :: nat

text \<open>
  The library functions the package calls, as parameters.
  \<open>structs_Map\<close> allocates a new map holding a struct's exported fields and returns its
  address; \<open>NewObjectID n\<close> is the identifier the generator returns at its \<open>n\<close>-th call;
  \<open>MarshalValue\<close> and \<open>Marshal\<close> read a value through the heap; \<open>Unmarshal\<close> allocates the
  decoded map and returns the value it leaves in \<open>m\<close>.
\<close>

record env =
  structs_Map :: "heap \<Rightarrow> val \<Rightarrow> heap \<times> addr"
  NewObjectID :: "nat \<Rightarrow> ObjectID"
  MarshalValue :: "heap \<Rightarrow> val \<Rightarrow> string + bytes"
  Marshal :: "heap \<Rightarrow> val \<Rightarrow> string + bytes"
  Unmarshal :: "heap \<Rightarrow> bytes \<Rightarrow> string + heap \<times> val"

section \<open>Database and Collection\<close>

record Database =
  Path :: string
  db :: nat

text \<open>The fields \<open>db\<close> and \<open>name\<close> of \<open>Collection\<close>, renamed apart from those of \<open>Database\<close>.\<close>

record Collection =
  c_db :: Database
  c_name :: string

definition Database_Close :: "Database \<Rightarrow> world \<Rightarrow> world" where
  "Database_Close d s = s\<lparr>engines := (engines s)(db d := DB_Close (engines s (db d)))\<rparr>"

definition Database_Collection :: "Database \<Rightarrow> world \<Rightarrow> string \<Rightarrow> world \<times> Collection outcome" where
  "Database_Collection d s n =
     (if n = [] then (s, Fail ErrEmptyBucketName)
      else case DB_Update (engines s (db d)) (\<lambda>tx. Tx_CreateBucketIfNotExists tx n) of
             (e', Return _) \<Rightarrow>
               (s\<lparr>engines := (engines s)(db d := e')\<rparr>, Return \<lparr>c_db = d, c_name = n\<rparr>)
           | (e', Fail err) \<Rightarrow> (s\<lparr>engines := (engines s)(db d := e')\<rparr>, Fail err)
           | (e', Panic p) \<Rightarrow> (s\<lparr>engines := (engines s)(db d := e')\<rparr>, Panic p))"

definition Collection_Name :: "Collection \<Rightarrow> string" where
  "Collection_Name c = c_name c"

definition Collection_Database :: "Collection \<Rightarrow> Database" where
  "Collection_Database c = c_db c"

definition Collection_Drop :: "Collection \<Rightarrow> world \<Rightarrow> world \<times> unit outcome" where
  "Collection_Drop c s =
     (case DB_Update (engines s (db (c_db c))) (\<lambda>tx. Tx_DeleteBucket tx (c_name c)) of
        (e', r) \<Rightarrow> (s\<lparr>engines := (engines s)(db (c_db c) := e')\<rparr>, r))"

section \<open>InsertOne and GetByID\<close>

text \<open>
  \<open>InsertOne\<close>, lines 100 to 119: the shape check and the conversion to a
  \<open>map[string]interface{}\<close>.  \<open>t.Kind()\<close> on the nil type of a nil interface panics.
  The result is the heap (with the map \<open>structs.Map\<close> allocated, for a struct) and \<open>m\<close>.
\<close>

definition normalize :: "env \<Rightarrow> heap \<Rightarrow> val \<Rightarrow> (heap \<times> addr option) outcome" where
  "normalize E h doc =
     (case reflect_TypeOf doc of
        None \<Rightarrow> Panic NilPointerDereference
      | Some k \<Rightarrow>
          if k \<noteq> reflect_Struct \<and> k \<noteq> reflect_Map then Fail ErrInvalidType
          else
            let (h1, m) = (if k = reflect_Struct
                           then (case structs_Map E h doc of (h', a) \<Rightarrow> (h', Some a))
                           else (h, None))
            in if k = reflect_Map
               then (case assert_map doc of
                       (m', ok) \<Rightarrow> if \<not> ok then Fail ErrInvalidType else Return (h1, m'))
               else Return (h1, m))"

text \<open>
  Lines 121 to 127: read \<open>m["_id"]\<close>; when absent, generate an identifier and store it in
  the map (which panics on a nil map, after the generator has run).
\<close>

definition assign_id :: "env \<Rightarrow> world \<Rightarrow> addr option \<Rightarrow> world \<times> val outcome" where
  "assign_id E s m =
     (case map_index (heap s) m ''_id'' of
        Some idv \<Rightarrow> (s, Return idv)
      | None \<Rightarrow>
          let idv = VObjectID (NewObjectID E (oid_calls s));
              s1 = s\<lparr>oid_calls := Suc (oid_calls s)\<rparr>
          in (case map_assign (heap s1) m ''_id'' idv of
                None \<Rightarrow> (s1, Panic AssignmentToNilMap)
              | Some h' \<Rightarrow> (s1\<lparr>heap := h'\<rparr>, Return idv)))"

text \<open>
  Lines 100 to 139, all that \<open>InsertOne\<close> does before the transaction: the identifier, its
  key bytes and the document bytes.  The changes to the caller's map and to the generator
  stay when a later step fails.
\<close>

definition prepare :: "env \<Rightarrow> world \<Rightarrow> val \<Rightarrow> world \<times> (val \<times> bytes \<times> bytes) outcome" where
  "prepare E s doc =
     (case normalize E (heap s) doc of
        Panic p \<Rightarrow> (s, Panic p)
      | Fail e \<Rightarrow> (s, Fail e)
      | Return (h1, m) \<Rightarrow>
          (case assign_id E (s\<lparr>heap := h1\<rparr>) m of
             (s1, Panic p) \<Rightarrow> (s1, Panic p)
           | (s1, Fail e) \<Rightarrow> (s1, Fail e)
           | (s1, Return idv) \<Rightarrow>
               (case MarshalValue E (heap s1) idv of
                  Inl e \<Rightarrow> (s1, Fail (ErrBson e))
                | Inr bid \<Rightarrow>
                    (case Marshal E (heap s1) (VMap m) of
                       Inl e \<Rightarrow> (s1, Fail (ErrBson e))
                     | Inr bdoc \<Rightarrow> (s1, Return (idv, bid, bdoc))))))"

text \<open>
  Lines 142 to 148, the body of the write transaction: \<open>tx.Bucket\<close> is nil for a bucket
  that does not exist, and \<open>Put\<close> on the nil bucket panics.
\<close>

definition put_body :: "string \<Rightarrow> bytes \<Rightarrow> bytes \<Rightarrow> Tx \<Rightarrow> Tx \<times> unit outcome" where
  "put_body n bid bdoc tx =
     (case Tx_Bucket tx n of
        None \<Rightarrow> (tx, Panic NilPointerDereference)
      | Some b \<Rightarrow>
          (case Bucket_Put b bid bdoc of
             Inl e \<Rightarrow> (tx, Fail e)
           | Inr b' \<Rightarrow> (tx(n \<mapsto> b'), Return ())))"

definition Collection_InsertOne :: "env \<Rightarrow> Collection \<Rightarrow> world \<Rightarrow> val \<Rightarrow> world \<times> val outcome" where
  "Collection_InsertOne E c s doc =
     (case prepare E s doc of
        (s1, Panic p) \<Rightarrow> (s1, Panic p)
      | (s1, Fail e) \<Rightarrow> (s1, Fail e)
      | (s1, Return (idv, bid, bdoc)) \<Rightarrow>
          (case DB_Update (engines s1 (db (c_db c))) (put_body (c_name c) bid bdoc) of
             (e', Return _) \<Rightarrow> (s1\<lparr>engines := (engines s1)(db (c_db c) := e')\<rparr>, Return idv)
           | (e', Fail err) \<Rightarrow> (s1\<lparr>engines := (engines s1)(db (c_db c) := e')\<rparr>, Fail err)
           | (e', Panic p) \<Rightarrow> (s1\<lparr>engines := (engines s1)(db (c_db c) := e')\<rparr>, Panic p)))"

text \<open>Lines 164 to 171, the body of the read transaction of \<open>GetByID\<close>.\<close>

definition get_body :: "string \<Rightarrow> bytes \<Rightarrow> Tx \<Rightarrow> bytes outcome" where
  "get_body n bid tx =
     (case Tx_Bucket tx n of
        None \<Rightarrow> Panic NilPointerDereference
      | Some b \<Rightarrow>
          (case Bucket_Get b bid of
             None \<Rightarrow> Fail ErrDocumentNotFound
           | Some doc \<Rightarrow> Return doc))"

definition Collection_GetByID :: "env \<Rightarrow> Collection \<Rightarrow> world \<Rightarrow> val \<Rightarrow> world \<times> val outcome" where
  "Collection_GetByID E c s idv =
     (case MarshalValue E (heap s) idv of
        Inl e \<Rightarrow> (s, Fail (ErrBson e))
      | Inr bid \<Rightarrow>
          (case DB_View (engines s (db (c_db c))) (get_body (c_name c) bid) of
             Panic p \<Rightarrow> (s, Panic p)
           | Fail e \<Rightarrow> (s, Fail e)
           | Return doc \<Rightarrow>
               (case Unmarshal E (heap s) doc of
                  Inl e \<Rightarrow> (s, Fail (ErrBson e))
                | Inr (h', m) \<Rightarrow> (s\<lparr>heap := h'\<rparr>, Return m))))"

section \<open>The operations without a body\<close>

record SingleResult =
  data :: bytes

text \<open>\<open>InsertMany\<close> returns the nil slice (of length 0) and no error.\<close>

definition Collection_InsertMany :: "Collection \<Rightarrow> world \<Rightarrow> val list \<Rightarrow> world \<times> val list outcome" where
  "Collection_InsertMany c s docs = (s, Return [])"

text \<open>\<open>FindOne\<close> returns the nil pointer (\<open>None\<close>) and no error.\<close>

definition Collection_FindOne ::
  "Collection \<Rightarrow> world \<Rightarrow> val \<Rightarrow> val \<Rightarrow> world \<times> SingleResult option outcome" where
  "Collection_FindOne c s flt result = (s, Return None)"

section \<open>Abbreviations for the statements\<close>

text \<open>The key-value pairs of a collection's bucket, when the bucket exists.\<close>

definition keyspace :: "Collection \<Rightarrow> world \<Rightarrow> Bucket option" where
  "keyspace c s = buckets (engines s (db (c_db c))) (c_name c)"

definition is_open :: "Collection \<Rightarrow> world \<Rightarrow> bool" where
  "is_open c s = opened (engines s (db (c_db c)))"

text \<open>A key and a value the engine accepts in \<open>Put\<close>.\<close>

definition storable :: "bytes \<Rightarrow> bytes \<Rightarrow> bool" where
  "storable key v \<longleftrightarrow> 0 < length key \<and> length key \<le> MaxKeySize \<and> length v \<le> MaxValueSize"

section \<open>A small instance, for evaluating the operations\<close>

text \<open>
  An instance of the external functions over documents with the two fields \<open>_id\<close> and
  \<open>name\<close>: an identifier is written as its twelve bytes (most significant first), an integer
  as four bytes (least significant first), and a document as the length of the identifier's
  bytes, those bytes, and the bytes of the name.  A four-byte integer is read back as an
  \<open>int32\<close>.
\<close>

definition oid_bytes :: "ObjectID \<Rightarrow> bytes" where
  "oid_bytes w = map (\<lambda>i. ucast (drop_bit (8 * i) w)) [11, 10, 9, 8, 7, 6, 5, 4, 3, 2, 1, 0]"

definition bytes_oid :: "bytes \<Rightarrow> ObjectID" where
  "bytes_oid bs = foldl (\<lambda>acc b. or (push_bit 8 acc) (ucast b)) 0 bs"

definition int_bytes :: "int \<Rightarrow> bytes" where
  "int_bytes i = map (\<lambda>k. word_of_int (i div 256 ^ k)) [0, 1, 2, 3]"

definition bytes_int :: "bytes \<Rightarrow> int" where
  "bytes_int bs = foldr (\<lambda>b acc. uint b + 256 * acc) bs 0"

definition demo_structs_Map :: "heap \<Rightarrow> val \<Rightarrow> heap \<times> addr" where
  "demo_structs_Map h v =
     (case v of VStruct fs \<Rightarrow> (h(100 := map_of fs), 100) | _ \<Rightarrow> (h(100 := Map.empty), 100))"

definition demo_MarshalValue :: "heap \<Rightarrow> val \<Rightarrow> string + bytes" where
  "demo_MarshalValue h v =
     (case v of
        VObjectID w \<Rightarrow> Inr (oid_bytes w)
      | VInt i \<Rightarrow> Inr (int_bytes i)
      | _ \<Rightarrow> Inl ''no encoder found'')"

definition demo_Marshal :: "heap \<Rightarrow> val \<Rightarrow> string + bytes" where
  "demo_Marshal h v =
     (case v of
        VMap (Some a) \<Rightarrow>
          (case (h a ''_id'', h a ''name'') of
             (Some i, Some (VString n)) \<Rightarrow>
               (case demo_MarshalValue h i of
                  Inl e \<Rightarrow> Inl e
                | Inr bi \<Rightarrow> Inr (word_of_nat (length bi) # bi @ map (\<lambda>ch. word_of_nat (of_char ch)) n))
           | _ \<Rightarrow> Inl ''unsupported document'')
      | _ \<Rightarrow> Inl ''unsupported document'')"

definition demo_Unmarshal :: "heap \<Rightarrow> bytes \<Rightarrow> string + heap \<times> val" where
  "demo_Unmarshal h bs =
     (case bs of
        [] \<Rightarrow> Inl ''document too short''
      | l # rest \<Rightarrow>
          if length rest < unat l then Inl ''document too short''
          else
            let bi = take (unat l) rest;
                i = (if unat l = 12 then VObjectID (bytes_oid bi)
                     else VInt32 (word_of_int (bytes_int bi)));
                n = map (\<lambda>b. char_of (unat b)) (drop (unat l) rest)
            in Inr (h(200 := [''_id'' \<mapsto> i, ''name'' \<mapsto> VString n]), VMap (Some 200)))"

definition demo_env :: env where
  "demo_env =
     \<lparr>structs_Map = demo_structs_Map,
      NewObjectID = (\<lambda>n. word_of_nat (Suc n)),
      MarshalValue = demo_MarshalValue,
      Marshal = demo_Marshal,
      Unmarshal = demo_Unmarshal\<rparr>"

definition demo_db :: Database where
  "demo_db = \<lparr>Path = ''demo.db'', db = 0\<rparr>"

definition users :: Collection where
  "users = \<lparr>c_db = demo_db, c_name = ''users''\<rparr>"

text \<open>
  A world with one open engine holding the empty bucket \<open>users\<close>, and two map objects: at
  address 10 the document \<open>{"name": "Ann"}\<close>, at address 20 the document
  \<open>{"_id": 42, "name": "Bo"}\<close>.
\<close>

definition demo_world :: world where
  "demo_world =
     \<lparr>heap = (\<lambda>_. Map.empty)
               (10 := [''name'' \<mapsto> VString ''Ann''],
                20 := [''_id'' \<mapsto> VInt 42, ''name'' \<mapsto> VString ''Bo'']),
      engines = (\<lambda>_. \<lparr>opened = True, buckets = [''users'' \<mapsto> Map.empty]\<rparr>),
      oid_calls = 0\<rparr>"

text \<open>
  A second instance, over documents with the two fields \<open>_id\<close> (an identifier) and \<open>age\<close> (an
  integer).  It treats integers as the codec \<open>bson\<close> does: a Go \<open>int\<close> is written as a 32-bit
  integer (element type \<open>0x10\<close>) when it fits in 32 bits and as a 64-bit integer (element type
  \<open>0x12\<close>) otherwise, and reading into an \<open>interface{}\<close> gives an \<open>int32\<close> or an \<open>int64\<close>.
\<close>

definition int64_bytes :: "int \<Rightarrow> bytes" where
  "int64_bytes i = map (\<lambda>k. word_of_int (i div 256 ^ k)) [0, 1, 2, 3, 4, 5, 6, 7]"

definition bson_int :: "val \<Rightarrow> bytes option" where
  "bson_int v =
     (case v of
        VInt i \<Rightarrow>
          Some (if - (2 ^ 31) \<le> i \<and> i < 2 ^ 31 then 16 # int_bytes i else 18 # int64_bytes i)
      | VInt32 w \<Rightarrow> Some (16 # int_bytes (sint w))
      | VInt64 w \<Rightarrow> Some (18 # int64_bytes (sint w))
      | _ \<Rightarrow> None)"

definition age_Marshal :: "heap \<Rightarrow> val \<Rightarrow> string + bytes" where
  "age_Marshal h v =
     (case v of
        VMap (Some a) \<Rightarrow>
          (case (h a ''_id'', h a ''age'') of
             (Some (VObjectID w), Some x) \<Rightarrow>
               (case bson_int x of
                  None \<Rightarrow> Inl ''unsupported document''
                | Some bs \<Rightarrow> Inr (oid_bytes w @ bs))
           | _ \<Rightarrow> Inl ''unsupported document'')
      | _ \<Rightarrow> Inl ''unsupported document'')"

definition age_Unmarshal :: "heap \<Rightarrow> bytes \<Rightarrow> string + heap \<times> val" where
  "age_Unmarshal h bs =
     (case drop 12 bs of
        [] \<Rightarrow> Inl ''document too short''
      | tag # rest \<Rightarrow>
          if tag = 16 \<and> length rest = 4
          then Inr (h(200 := [''_id'' \<mapsto> VObjectID (bytes_oid (take 12 bs)),
                              ''age'' \<mapsto> VInt32 (word_of_int (bytes_int rest))]),
                    VMap (Some 200))
          else if tag = 18 \<and> length rest = 8
          then Inr (h(200 := [''_id'' \<mapsto> VObjectID (bytes_oid (take 12 bs)),
                              ''age'' \<mapsto> VInt64 (word_of_int (bytes_int rest))]),
                    VMap (Some 200))
          else Inl ''unsupported element'')"

definition age_env :: env where
  "age_env = demo_env\<lparr>Marshal := age_Marshal, Unmarshal := age_Unmarshal\<rparr>"

text \<open>The world with one more map object: at address 30 the document \<open>{"age": 42}\<close>.\<close>

definition age_world :: world where
  "age_world = demo_world\<lparr>heap := (heap demo_world)(30 := [''age'' \<mapsto> VInt 42])\<rparr>"

text \<open>
  The same world after \<open>{"_id": 42, "name": "Cy"}\<close> has been stored: the bucket holds one
  record under the key of 42.
\<close>

definition demo_world_Cy :: world where
  "demo_world_Cy =
     demo_world\<lparr>engines := (\<lambda>_. \<lparr>opened = True,
        buckets = [''users'' \<mapsto> [int_bytes 42 \<mapsto> 4 # int_bytes 42 @ [67, 121]]]\<rparr>)\<rparr>"

section \<open>Lemmas about the steps of InsertOne\<close>

lemma normalize_VMap: "normalize E h (VMap m) = Return (h, m)"
  by (simp add: normalize_def)

lemma normalize_VStruct:
  "normalize E h (VStruct fs) =
     Return (fst (structs_Map E h (VStruct fs)), Some (snd (structs_Map E h (VStruct fs))))"
  by (simp add: normalize_def split: prod.splits)

lemma normalize_other:
  "reflect_TypeOf doc = Some k \<Longrightarrow> k \<noteq> reflect_Struct \<Longrightarrow> k \<noteq> reflect_Map \<Longrightarrow>
   normalize E h doc = Fail ErrInvalidType"
  by (simp add: normalize_def)

lemma normalize_VMapOther: "normalize E h (VMapOther t) = Fail ErrInvalidType"
  by (simp add: normalize_def)

lemma assign_id_ReturnD:
  assumes "assign_id E s m = (s1, Return idv)"
  shows "case map_index (heap s) m ''_id'' of
           Some v \<Rightarrow> idv = v \<and> s1 = s
         | None \<Rightarrow> idv = VObjectID (NewObjectID E (oid_calls s)) \<and>
             (\<exists>a. m = Some a \<and>
                  s1 = s\<lparr>oid_calls := Suc (oid_calls s),
                         heap := (heap s)(a := (heap s a)(''_id'' \<mapsto> idv))\<rparr>)"
  using assms
  by (auto simp: assign_id_def Let_def map_assign_def split: option.splits)

lemma assign_id_present:
  "map_index (heap s) m ''_id'' = Some v \<Longrightarrow> assign_id E s m = (s, Return v)"
  by (simp add: assign_id_def)

lemma assign_id_absent:
  "heap s a ''_id'' = None \<Longrightarrow>
   assign_id E s (Some a) =
     (s\<lparr>oid_calls := Suc (oid_calls s),
        heap := (heap s)(a := (heap s a)(''_id'' \<mapsto> VObjectID (NewObjectID E (oid_calls s))))\<rparr>,
      Return (VObjectID (NewObjectID E (oid_calls s))))"
  by (simp add: assign_id_def map_index_def map_assign_def Let_def)

lemma prepare_engines: "prepare E s doc = (s1, r) \<Longrightarrow> engines s1 = engines s"
  by (auto simp: prepare_def assign_id_def Let_def
      split: outcome.splits prod.splits option.splits sum.splits)

lemma prepare_ReturnD:
  assumes "prepare E s doc = (s1, Return (idv, bid, bdoc))"
  shows "\<exists>h1 m. normalize E (heap s) doc = Return (h1, m) \<and>
           assign_id E (s\<lparr>heap := h1\<rparr>) m = (s1, Return idv) \<and>
           MarshalValue E (heap s1) idv = Inr bid \<and>
           Marshal E (heap s1) (VMap m) = Inr bdoc"
  using assms
  by (auto simp: prepare_def split: outcome.splits prod.splits sum.splits)

lemma prepare_ok:
  assumes "normalize E (heap s) doc = Return (h1, m)"
    and "assign_id E (s\<lparr>heap := h1\<rparr>) m = (s1, Return idv)"
    and "MarshalValue E (heap s1) idv = Inr bid"
    and "Marshal E (heap s1) (VMap m) = Inr bdoc"
  shows "prepare E s doc = (s1, Return (idv, bid, bdoc))"
  using assms by (simp add: prepare_def)

lemma put_body_ok:
  "tx n = Some b \<Longrightarrow> storable bid bdoc \<Longrightarrow>
   put_body n bid bdoc tx = (tx(n \<mapsto> b(bid \<mapsto> bdoc)), Return ())"
  by (simp add: put_body_def Tx_Bucket_def Bucket_Put_def storable_def)

text \<open>
  When the steps before the transaction succeed, the database is open, the bucket exists
  and the engine accepts the pair, \<open>InsertOne\<close> returns the identifier and the bucket holds
  the document under the key.
\<close>

lemma InsertOne_stores:
  assumes "prepare E s doc = (s1, Return (idv, bid, bdoc))"
    and "is_open c s" and "keyspace c s = Some b" and "storable bid bdoc"
  shows "Collection_InsertOne E c s doc =
           (s1\<lparr>engines := (engines s1)(db (c_db c) :=
                  (engines s1 (db (c_db c)))\<lparr>buckets :=
                     (buckets (engines s1 (db (c_db c))))(c_name c \<mapsto> b(bid \<mapsto> bdoc))\<rparr>)\<rparr>,
            Return idv)"
proof -
  have e: "engines s1 = engines s" using assms(1) by (rule prepare_engines)
  have tx: "buckets (engines s1 (db (c_db c))) (c_name c) = Some b"
    using assms(3) by (simp add: keyspace_def e)
  have op: "opened (engines s1 (db (c_db c)))"
    using assms(2) by (simp add: is_open_def e)
  have pb: "put_body (c_name c) bid bdoc (buckets (engines s1 (db (c_db c)))) =
              ((buckets (engines s1 (db (c_db c))))(c_name c \<mapsto> b(bid \<mapsto> bdoc)), Return ())"
    using tx assms(4) by (rule put_body_ok)
  show ?thesis
    by (simp add: Collection_InsertOne_def assms(1) DB_Update_def op pb)
qed

text \<open>Conversely, a call that returns an identifier went through each of these steps.\<close>

lemma InsertOne_ReturnD:
  assumes "Collection_InsertOne E c s doc = (s', Return rid)"
  shows "\<exists>s1 bid bdoc b. prepare E s doc = (s1, Return (rid, bid, bdoc)) \<and> is_open c s \<and>
           keyspace c s = Some b \<and> storable bid bdoc \<and>
           s' = s1\<lparr>engines := (engines s1)(db (c_db c) :=
                  (engines s1 (db (c_db c)))\<lparr>buckets :=
                     (buckets (engines s1 (db (c_db c))))(c_name c \<mapsto> b(bid \<mapsto> bdoc))\<rparr>)\<rparr>"
proof -
  obtain s1 r where p: "prepare E s doc = (s1, r)" by (cases "prepare E s doc")
  have e: "engines s1 = engines s" using p by (rule prepare_engines)
  show ?thesis
    using assms
    apply (simp add: Collection_InsertOne_def p split: outcome.splits prod.splits)
    apply (auto simp: DB_Update_def put_body_def Tx_Bucket_def Bucket_Put_def storable_def
        is_open_def keyspace_def e
        split: if_splits option.splits sum.splits outcome.splits prod.splits)
    done
qed

lemma InsertOne_rejects_other_kinds:
  assumes "reflect_TypeOf doc = Some k" and "k \<noteq> reflect_Struct" and "k \<noteq> reflect_Map"
  shows "Collection_InsertOne E c s doc = (s, Fail ErrInvalidType)"
  by (simp add: Collection_InsertOne_def prepare_def normalize_other [OF assms])

lemma InsertOne_rejects_other_maps:
  "Collection_InsertOne E c s (VMapOther t) = (s, Fail ErrInvalidType)"
  by (simp add: Collection_InsertOne_def prepare_def normalize_VMapOther)

text \<open>A nil map without \<open>_id\<close> passes the shape check; the injection into it panics.\<close>

lemma InsertOne_nil_map_panics:
  "Collection_InsertOne E c s (VMap None) =
     (s\<lparr>oid_calls := Suc (oid_calls s)\<rparr>, Panic AssignmentToNilMap)"
  by (simp add: Collection_InsertOne_def prepare_def normalize_VMap assign_id_def
      map_index_def map_assign_def Let_def)

lemma GetByID_found:
  assumes "MarshalValue E (heap s) idv = Inr bid"
    and "is_open c s" and "keyspace c s = Some b" and "b bid = Some doc"
    and "Unmarshal E (heap s) doc = Inr (h', m)"
  shows "Collection_GetByID E c s idv = (s\<lparr>heap := h'\<rparr>, Return m)"
  using assms
  by (simp add: Collection_GetByID_def DB_View_def get_body_def Tx_Bucket_def Bucket_Get_def
      is_open_def keyspace_def)

text \<open>
  Insert, then read: \<open>GetByID\<close> finds the bytes \<open>InsertOne\<close> stored and returns what the
  codec decodes from them.
\<close>

lemma InsertOne_then_GetByID_general:
  assumes "is_open c s" and "keyspace c s = Some b"
    and "normalize E (heap s) doc = Return (h1, Some a)"
    and "h1 a ''_id'' = None"
    and "g = VObjectID (NewObjectID E (oid_calls s))"
    and "h2 = h1(a := (h1 a)(''_id'' \<mapsto> g))"
    and "MarshalValue E h2 g = Inr bid"
    and "Marshal E h2 (VMap (Some a)) = Inr bdoc"
    and "storable bid bdoc"
  shows "\<exists>s1. Collection_InsertOne E c s doc = (s1, Return g) \<and> heap s1 = h2 \<and>
           keyspace c s1 = Some (b(bid \<mapsto> bdoc)) \<and>
           Collection_GetByID E c s1 g =
             (case Unmarshal E h2 bdoc of
                Inl e \<Rightarrow> (s1, Fail (ErrBson e))
              | Inr (h3, r) \<Rightarrow> (s1\<lparr>heap := h3\<rparr>, Return r))"
proof -
  define p1 where "p1 = s\<lparr>heap := h1, oid_calls := Suc (oid_calls s), heap := h2\<rparr>"
  define s1 where "s1 = p1\<lparr>engines := (engines p1)(db (c_db c) :=
                  (engines p1 (db (c_db c)))\<lparr>buckets :=
                     (buckets (engines p1 (db (c_db c))))(c_name c \<mapsto> b(bid \<mapsto> bdoc))\<rparr>)\<rparr>"
  have a: "assign_id E (s\<lparr>heap := h1\<rparr>) (Some a) = (p1, Return g)"
    using assign_id_absent [of "s\<lparr>heap := h1\<rparr>" a E] assms(4)
    by (simp add: p1_def assms(5) assms(6))
  have hp: "heap p1 = h2" by (simp add: p1_def)
  have p: "prepare E s doc = (p1, Return (g, bid, bdoc))"
    using assms(3) a by (rule prepare_ok) (simp_all add: hp assms(7) assms(8))
  have ins: "Collection_InsertOne E c s doc = (s1, Return g)"
    unfolding s1_def using p assms(1) assms(2) assms(9) by (rule InsertOne_stores)
  have h1s: "heap s1 = h2" by (simp add: s1_def hp)
  have op: "opened (engines s1 (db (c_db c)))"
    using assms(1) by (simp add: s1_def is_open_def p1_def)
  have ks: "keyspace c s1 = Some (b(bid \<mapsto> bdoc))" by (simp add: s1_def keyspace_def)
  have tx: "buckets (engines s1 (db (c_db c))) (c_name c) = Some (b(bid \<mapsto> bdoc))"
    using ks by (simp add: keyspace_def)
  have get: "Collection_GetByID E c s1 g =
             (case Unmarshal E h2 bdoc of
                Inl e \<Rightarrow> (s1, Fail (ErrBson e))
              | Inr (h3, r) \<Rightarrow> (s1\<lparr>heap := h3\<rparr>, Return r))"
    by (simp add: Collection_GetByID_def h1s assms(7) DB_View_def op get_body_def Tx_Bucket_def
        tx Bucket_Get_def split: sum.splits)
  from ins h1s ks get show ?thesis by blast
qed

text \<open>Where the codec reads the document back as it was written, the result is equal to it.\<close>

lemma InsertOne_then_GetByID_round_trip:
  assumes "is_open c s" and "keyspace c s = Some b"
    and "normalize E (heap s) doc = Return (h1, Some a)"
    and "h1 a ''_id'' = None"
    and "g = VObjectID (NewObjectID E (oid_calls s))"
    and "h2 = h1(a := (h1 a)(''_id'' \<mapsto> g))"
    and "MarshalValue E h2 g = Inr bid"
    and "Marshal E h2 (VMap (Some a)) = Inr bdoc"
    and "storable bid bdoc"
    and "Unmarshal E h2 bdoc = Inr (h3, VMap (Some a'))"
    and "h3 a' = h2 a"
  shows "\<exists>s1 s2. Collection_InsertOne E c s doc = (s1, Return g) \<and>
           Collection_GetByID E c s1 g = (s2, Return (VMap (Some a'))) \<and>
           heap s2 a' = (h1 a)(''_id'' \<mapsto> g)"
proof -
  from InsertOne_then_GetByID_general [OF assms(1-9)] obtain s1 where
    ins: "Collection_InsertOne E c s doc = (s1, Return g)" and
    get: "Collection_GetByID E c s1 g =
            (case Unmarshal E h2 bdoc of
               Inl e \<Rightarrow> (s1, Fail (ErrBson e))
             | Inr (h3, r) \<Rightarrow> (s1\<lparr>heap := h3\<rparr>, Return r))"
    by blast
  have get': "Collection_GetByID E c s1 g = (s1\<lparr>heap := h3\<rparr>, Return (VMap (Some a')))"
    by (simp add: get assms(10))
  have "heap (s1\<lparr>heap := h3\<rparr>) a' = (h1 a)(''_id'' \<mapsto> g)"
    by (simp add: assms(11) assms(6))
  with ins get' show ?thesis by blast
qed

text \<open>When the bucket exists and holds no record under the key, the error is returned.\<close>

lemma GetByID_absent:
  assumes "MarshalValue E (heap s) idv = Inr bid"
    and "is_open c s" and "keyspace c s = Some b" and "b bid = None"
  shows "Collection_GetByID E c s idv = (s, Fail ErrDocumentNotFound)"
  using assms
  by (simp add: Collection_GetByID_def DB_View_def get_body_def Tx_Bucket_def Bucket_Get_def
      is_open_def keyspace_def)

text \<open>
  After \<open>Drop\<close> the bucket is gone, and both \<open>GetByID\<close> and \<open>InsertOne\<close> dereference the nil
  bucket that \<open>tx.Bucket\<close> returns.
\<close>

lemma Drop_removes_bucket:
  assumes "is_open c s" and "keyspace c s = Some b"
  shows "\<exists>s'. Collection_Drop c s = (s', Return ()) \<and> keyspace c s' = None \<and> is_open c s'"
  using assms
  by (simp add: Collection_Drop_def DB_Update_def Tx_DeleteBucket_def is_open_def keyspace_def)

lemma GetByID_without_bucket:
  assumes "MarshalValue E (heap s) idv = Inr bid"
    and "is_open c s" and "keyspace c s = None"
  shows "Collection_GetByID E c s idv = (s, Panic NilPointerDereference)"
  using assms
  by (simp add: Collection_GetByID_def DB_View_def get_body_def Tx_Bucket_def
      is_open_def keyspace_def)

lemma InsertOne_without_bucket:
  assumes "prepare E s doc = (s1, Return (idv, bid, bdoc))"
    and "is_open c s" and "keyspace c s = None"
  shows "Collection_InsertOne E c s doc = (s1, Panic NilPointerDereference)"
proof -
  have e: "engines s1 = engines s" using assms(1) by (rule prepare_engines)
  have r: "s1\<lparr>engines := (engines s)(db (c_db c) := engines s (db (c_db c)))\<rparr> = s1"
    using e by simp
  show ?thesis
    using assms(2,3)
    by (simp add: Collection_InsertOne_def assms(1) DB_Update_def put_body_def Tx_Bucket_def
        is_open_def keyspace_def e r)
qed

subsection \<open>The instance evaluated\<close>

lemma demo_is_open: "is_open users demo_world"
  by (simp add: is_open_def users_def demo_world_def)

lemma demo_keyspace: "keyspace users demo_world = Some Map.empty"
  by (simp add: keyspace_def users_def demo_world_def)

lemma demo_oid_bytes_1: "oid_bytes 1 = [0, 0, 0, 0, 0, 0, 0, 0, 0, 0, 0, 1]"
  by (simp add: oid_bytes_def)

lemma demo_prepare_Ann:
  "prepare demo_env demo_world (VMap (Some 10)) =
     (demo_world\<lparr>oid_calls := 1,
                 heap := (heap demo_world)
                   (10 := [''name'' \<mapsto> VString ''Ann'', ''_id'' \<mapsto> VObjectID 1])\<rparr>,
      Return (VObjectID 1, oid_bytes 1, 12 # oid_bytes 1 @ [65, 110, 110]))"
  by (simp add: prepare_def normalize_def assign_id_def map_index_def map_assign_def Let_def
      demo_env_def demo_world_def demo_MarshalValue_def demo_Marshal_def demo_oid_bytes_1)

lemma demo_storable_Ann: "storable (oid_bytes 1) (12 # oid_bytes 1 @ [65, 110, 110])"
  by (simp add: storable_def demo_oid_bytes_1 MaxKeySize_def MaxValueSize_def)

lemma demo_InsertOne_Ann:
  "snd (Collection_InsertOne demo_env users demo_world (VMap (Some 10))) = Return (VObjectID 1)"
  by (subst InsertOne_stores [OF demo_prepare_Ann demo_is_open demo_keyspace demo_storable_Ann])
    simp

lemma demo_bytes_oid_1: "bytes_oid [0, 0, 0, 0, 0, 0, 0, 0, 0, 0, 0, 1] = 1"
  by (simp add: bytes_oid_def)

lemma demo_Unmarshal_Ann:
  "demo_Unmarshal h (12 # oid_bytes 1 @ [65, 110, 110]) =
     Inr (h(200 := [''_id'' \<mapsto> VObjectID 1, ''name'' \<mapsto> VString ''Ann'']), VMap (Some 200))"
  by (simp add: demo_Unmarshal_def demo_oid_bytes_1 demo_bytes_oid_1 Let_def char_of_def bit_0)

lemma demo_int_bytes_42: "int_bytes 42 = [42, 0, 0, 0]"
  by (simp add: int_bytes_def)

lemma demo_prepare_Bo:
  "prepare demo_env demo_world_Cy (VMap (Some 20)) =
     (demo_world_Cy, Return (VInt 42, int_bytes 42, 4 # int_bytes 42 @ [66, 111]))"
  by (simp add: prepare_def normalize_def assign_id_def map_index_def
      demo_env_def demo_world_Cy_def demo_world_def demo_MarshalValue_def demo_Marshal_def
      demo_int_bytes_42)





lemma age_is_open: "is_open users age_world"
  by (simp add: is_open_def users_def age_world_def demo_world_def)

lemma age_keyspace: "keyspace users age_world = Some Map.empty"
  by (simp add: keyspace_def users_def age_world_def demo_world_def)

lemma age_no_id: "heap age_world 30 ''_id'' = None"
  by (simp add: age_world_def demo_world_def)

lemma age_generated: "VObjectID 1 = VObjectID (NewObjectID age_env (oid_calls age_world))"
  by (simp add: age_env_def demo_env_def age_world_def demo_world_def)

lemma age_MarshalValue: "MarshalValue age_env h (VObjectID 1) = Inr (oid_bytes 1)"
  by (simp add: age_env_def demo_env_def demo_MarshalValue_def)

lemma age_Marshal_42:
  "h a ''_id'' = Some (VObjectID 1) \<Longrightarrow> h a ''age'' = Some (VInt 42) \<Longrightarrow>
   Marshal age_env h (VMap (Some a)) = Inr (oid_bytes 1 @ [16, 42, 0, 0, 0])"
  by (simp add: age_env_def age_Marshal_def bson_int_def demo_int_bytes_42)

lemma age_storable: "storable (oid_bytes 1) (oid_bytes 1 @ [16, 42, 0, 0, 0])"
  by (simp add: storable_def demo_oid_bytes_1 MaxKeySize_def MaxValueSize_def)

lemma age_Unmarshal_42:
  "Unmarshal age_env h (oid_bytes 1 @ [16, 42, 0, 0, 0]) =
     Inr (h(200 := [''_id'' \<mapsto> VObjectID 1, ''age'' \<mapsto> VInt32 42]), VMap (Some 200))"
  by (simp add: age_env_def age_Unmarshal_def demo_oid_bytes_1 demo_bytes_oid_1 bytes_int_def)

section \<open>The identifier of an inserted document\<close>



section \<open>The caller's map\<close>

text \<open>
  Claim C9.  When \<open>InsertOne\<close> is given a \<open>map[string]interface{}\<close> (the map object at
  address \<open>a\<close>) that has no \<open>_id\<close> entry, and the call returns an identifier, then the
  caller's own map object holds that identifier under \<open>_id\<close> afterwards; the identifier is
  the generated one, and nothing else in the heap changed.
\<close>

theorem InsertOne_mutates_caller_map:
  assumes "Collection_InsertOne E c s (VMap (Some a)) = (s', Return rid)"
    and "heap s a ''_id'' = None"
  shows "rid = VObjectID (NewObjectID E (oid_calls s)) \<and>
         heap s' a ''_id'' = Some rid \<and>
         heap s' = (heap s)(a := (heap s a)(''_id'' \<mapsto> rid))"
proof -
  from InsertOne_ReturnD [OF assms(1)] obtain s1 bid bdoc b where
    p: "prepare E s (VMap (Some a)) = (s1, Return (rid, bid, bdoc))" and
    s': "s' = s1\<lparr>engines := (engines s1)(db (c_db c) :=
                  (engines s1 (db (c_db c)))\<lparr>buckets :=
                     (buckets (engines s1 (db (c_db c))))(c_name c \<mapsto> b(bid \<mapsto> bdoc))\<rparr>)\<rparr>"
    by blast
  from prepare_ReturnD [OF p] have
    a: "assign_id E (s\<lparr>heap := heap s\<rparr>) (Some a) = (s1, Return rid)"
    by (auto simp: normalize_VMap)
  have "map_index (heap s) (Some a) ''_id'' = None"
    using assms(2) by (simp add: map_index_def)
  with assign_id_ReturnD [OF a] have
    r: "rid = VObjectID (NewObjectID E (oid_calls s))" and
    h: "heap s1 = (heap s)(a := (heap s a)(''_id'' \<mapsto> rid))"
    by auto
  have hs: "heap s' = heap s1" by (simp add: s')
  show ?thesis using r h hs by simp
qed

theorem InsertOne_mutates_caller_map_witness:
  "Collection_InsertOne demo_env users demo_world (VMap (Some 10)) =
     (fst (Collection_InsertOne demo_env users demo_world (VMap (Some 10))), Return (VObjectID 1)) \<and>
   heap demo_world 10 ''_id'' = None \<and>
   VObjectID 1 = VObjectID (NewObjectID demo_env (oid_calls demo_world)) \<and>
   heap (fst (Collection_InsertOne demo_env users demo_world (VMap (Some 10)))) 10 ''_id'' =
     Some (VObjectID 1) \<and>
   heap (fst (Collection_InsertOne demo_env users demo_world (VMap (Some 10)))) =
     (heap demo_world)(10 := (heap demo_world 10)(''_id'' \<mapsto> VObjectID 1))"
proof -
  have h: "Collection_InsertOne demo_env users demo_world (VMap (Some 10)) =
     (fst (Collection_InsertOne demo_env users demo_world (VMap (Some 10))), Return (VObjectID 1))"
    using demo_InsertOne_Ann by (simp add: prod_eq_iff)
  have n: "heap demo_world 10 ''_id'' = None"
    by (simp add: demo_world_def)
  from InsertOne_mutates_caller_map [OF h n] h n show ?thesis by blast
qed

section \<open>A nil document\<close>

text \<open>
  Claim C10.  \<open>InsertOne\<close> called with the nil interface does not return \<open>ErrInvalidType\<close>:
  it panics with a nil dereference, in every state, and leaves the state as it was.  So a
  call can only be free of panics when the document is not nil.
\<close>

theorem InsertOne_nil_panics:
  "Collection_InsertOne E c s VNil = (s, Panic NilPointerDereference) \<and>
   snd (Collection_InsertOne E c s VNil) \<noteq> Fail ErrInvalidType"
  by (simp add: Collection_InsertOne_def prepare_def normalize_def)

section \<open>Insert, then read back\<close>

text \<open>
  Claim C1, as the code has it.  Let the database be open and the collection's bucket exist.
  Let \<open>doc\<close> be a valid document without \<open>_id\<close>: a non-nil \<open>map[string]interface{}\<close>, or a
  struct that \<open>structs.Map\<close> flattens to a map, with no \<open>_id\<close> entry, such that with the
  generated identifier \<open>g\<close> injected the identifier and the map are encoded into a key and a
  value the engine accepts.  Then \<open>InsertOne\<close> returns \<open>g\<close>, the identifier the generator
  produced at this call, and stores the encoding of the document plus \<open>_id = g\<close> under the
  encoding of \<open>g\<close>; and \<open>GetByID g\<close> in the resulting state returns exactly what the codec
  decodes from those bytes (or the codec's error).  The result is the document plus \<open>_id\<close> as
  the codec reads it back; the code does nothing to restore the values' types.
\<close>

theorem InsertOne_then_GetByID_decodes:
  assumes "is_open c s" and "keyspace c s = Some b"
    and "(doc = VMap (Some a) \<and> h1 = heap s) \<or>
         ((\<exists>fs. doc = VStruct fs) \<and> structs_Map E (heap s) doc = (h1, a))"
    and "h1 a ''_id'' = None"
    and "g = VObjectID (NewObjectID E (oid_calls s))"
    and "h2 = h1(a := (h1 a)(''_id'' \<mapsto> g))"
    and "MarshalValue E h2 g = Inr bid"
    and "Marshal E h2 (VMap (Some a)) = Inr bdoc"
    and "storable bid bdoc"
  shows "\<exists>s1. Collection_InsertOne E c s doc = (s1, Return g) \<and> heap s1 = h2 \<and>
           keyspace c s1 = Some (b(bid \<mapsto> bdoc)) \<and>
           Collection_GetByID E c s1 g =
             (case Unmarshal E h2 bdoc of
                Inl e \<Rightarrow> (s1, Fail (ErrBson e))
              | Inr (h3, r) \<Rightarrow> (s1\<lparr>heap := h3\<rparr>, Return r))"
proof -
  have n: "normalize E (heap s) doc = Return (h1, Some a)"
    using assms(3) by (auto simp: normalize_VMap normalize_VStruct)
  from assms(1,2) n assms(4-9) show ?thesis
    by (rule InsertOne_then_GetByID_general)
qed

theorem InsertOne_then_GetByID_decodes_witness:
  "(is_open users age_world \<and> keyspace users age_world = Some Map.empty \<and>
    heap age_world 30 ''_id'' = None \<and>
    (\<exists>s1. Collection_InsertOne age_env users age_world (VMap (Some 30)) =
            (s1, Return (VObjectID 1)) \<and>
       heap s1 = (heap age_world)(30 := (heap age_world 30)(''_id'' \<mapsto> VObjectID 1)) \<and>
       keyspace users s1 = Some [oid_bytes 1 \<mapsto> oid_bytes 1 @ [16, 42, 0, 0, 0]] \<and>
       Collection_GetByID age_env users s1 (VObjectID 1) =
         (case Unmarshal age_env
                 ((heap age_world)(30 := (heap age_world 30)(''_id'' \<mapsto> VObjectID 1)))
                 (oid_bytes 1 @ [16, 42, 0, 0, 0]) of
            Inl e \<Rightarrow> (s1, Fail (ErrBson e))
          | Inr (h3, r) \<Rightarrow> (s1\<lparr>heap := h3\<rparr>, Return r)))) \<and>
   (structs_Map age_env (heap age_world) (VStruct [(''age'', VInt 42)]) =
      ((heap age_world)(100 := map_of [(''age'', VInt 42)]), 100) \<and>
    (\<exists>s1. Collection_InsertOne age_env users age_world (VStruct [(''age'', VInt 42)]) =
            (s1, Return (VObjectID 1)) \<and>
       heap s1 = ((heap age_world)(100 := map_of [(''age'', VInt 42)]))
                   (100 := (((heap age_world)(100 := map_of [(''age'', VInt 42)])) 100)
                              (''_id'' \<mapsto> VObjectID 1)) \<and>
       keyspace users s1 = Some [oid_bytes 1 \<mapsto> oid_bytes 1 @ [16, 42, 0, 0, 0]] \<and>
       Collection_GetByID age_env users s1 (VObjectID 1) =
         (case Unmarshal age_env
                 (((heap age_world)(100 := map_of [(''age'', VInt 42)]))
                   (100 := (((heap age_world)(100 := map_of [(''age'', VInt 42)])) 100)
                              (''_id'' \<mapsto> VObjectID 1)))
                 (oid_bytes 1 @ [16, 42, 0, 0, 0]) of
            Inl e \<Rightarrow> (s1, Fail (ErrBson e))
          | Inr (h3, r) \<Rightarrow> (s1\<lparr>heap := h3\<rparr>, Return r))))"
proof -
  let ?h2 = "(heap age_world)(30 := (heap age_world 30)(''_id'' \<mapsto> VObjectID 1))"
  let ?k1 = "(heap age_world)(100 := map_of [(''age'', VInt 42)])"
  let ?k2 = "?k1(100 := (?k1 100)(''_id'' \<mapsto> VObjectID 1))"
  have age: "heap age_world 30 ''age'' = Some (VInt 42)"
    by (simp add: age_world_def demo_world_def)
  have md: "Marshal age_env ?h2 (VMap (Some 30)) = Inr (oid_bytes 1 @ [16, 42, 0, 0, 0])"
    by (rule age_Marshal_42) (simp_all add: age)
  have shape1: "(VMap (Some 30) = VMap (Some 30) \<and> heap age_world = heap age_world) \<or>
      ((\<exists>fs. VMap (Some 30) = VStruct fs) \<and>
       structs_Map age_env (heap age_world) (VMap (Some 30)) = (heap age_world, 30))"
    by simp
  have sm: "structs_Map age_env (heap age_world) (VStruct [(''age'', VInt 42)]) = (?k1, 100)"
    by (simp add: age_env_def demo_env_def demo_structs_Map_def)
  have shape2: "(VStruct [(''age'', VInt 42)] = VMap (Some 100) \<and> ?k1 = heap age_world) \<or>
      ((\<exists>fs. VStruct [(''age'', VInt 42)] = VStruct fs) \<and>
       structs_Map age_env (heap age_world) (VStruct [(''age'', VInt 42)]) = (?k1, 100))"
    using sm by simp
  have noid2: "?k1 100 ''_id'' = None" by simp
  have md2: "Marshal age_env ?k2 (VMap (Some 100)) = Inr (oid_bytes 1 @ [16, 42, 0, 0, 0])"
    by (rule age_Marshal_42) simp_all
  note w1 = InsertOne_then_GetByID_decodes [OF age_is_open age_keyspace shape1 age_no_id
      age_generated refl age_MarshalValue md age_storable]
  note w2 = InsertOne_then_GetByID_decodes [OF age_is_open age_keyspace shape2 noid2
      age_generated refl age_MarshalValue md2 age_storable]
  show ?thesis
    by (intro conjI age_is_open age_keyspace age_no_id sm w1 w2)
qed

text \<open>
  Claim C1 as stated, refuted.  The document \<open>{"age": 42}\<close>, with \<open>42\<close> a Go \<open>int\<close>, has no
  \<open>_id\<close> and is inserted successfully; \<open>GetByID\<close> of the returned identifier returns a
  document whose \<open>age\<close> is the \<open>int32\<close> 42, not the \<open>int\<close> 42: it is not equal to the
  document plus \<open>_id\<close>.
\<close>

theorem InsertOne_then_GetByID_int32_counterexample:
  "heap age_world 30 ''_id'' = None \<and>
   heap age_world 30 ''age'' = Some (VInt 42) \<and>
   snd (Collection_InsertOne age_env users age_world (VMap (Some 30))) = Return (VObjectID 1) \<and>
   snd (Collection_GetByID age_env users
          (fst (Collection_InsertOne age_env users age_world (VMap (Some 30)))) (VObjectID 1)) =
     Return (VMap (Some 200)) \<and>
   heap (fst (Collection_GetByID age_env users
          (fst (Collection_InsertOne age_env users age_world (VMap (Some 30)))) (VObjectID 1)))
     200 ''age'' = Some (VInt32 42) \<and>
   heap (fst (Collection_GetByID age_env users
          (fst (Collection_InsertOne age_env users age_world (VMap (Some 30)))) (VObjectID 1)))
     200 \<noteq> (heap age_world 30)(''_id'' \<mapsto> VObjectID 1)"
proof -
  let ?h2 = "(heap age_world)(30 := (heap age_world 30)(''_id'' \<mapsto> VObjectID 1))"
  let ?bdoc = "oid_bytes 1 @ [16, 42, 0, 0, 0]"
  have age: "heap age_world 30 ''age'' = Some (VInt 42)"
    by (simp add: age_world_def demo_world_def)
  have md: "Marshal age_env ?h2 (VMap (Some 30)) = Inr ?bdoc"
    by (rule age_Marshal_42) (simp_all add: age)
  from InsertOne_then_GetByID_general [OF age_is_open age_keyspace normalize_VMap age_no_id
      age_generated refl age_MarshalValue md age_storable]
  obtain s1 where
    ins: "Collection_InsertOne age_env users age_world (VMap (Some 30)) = (s1, Return (VObjectID 1))" and
    get: "Collection_GetByID age_env users s1 (VObjectID 1) =
            (case Unmarshal age_env ?h2 ?bdoc of
               Inl e \<Rightarrow> (s1, Fail (ErrBson e))
             | Inr (h3, r) \<Rightarrow> (s1\<lparr>heap := h3\<rparr>, Return r))"
    by blast
  have get': "Collection_GetByID age_env users s1 (VObjectID 1) =
      (s1\<lparr>heap := ?h2(200 := [''_id'' \<mapsto> VObjectID 1, ''age'' \<mapsto> VInt32 42])\<rparr>,
       Return (VMap (Some 200)))"
    by (simp add: get age_Unmarshal_42)
  have f: "fst (Collection_InsertOne age_env users age_world (VMap (Some 30))) = s1"
    by (simp add: ins)
  have d: "[''_id'' \<mapsto> VObjectID 1, ''age'' \<mapsto> VInt32 42] \<noteq>
           (heap age_world 30)(''_id'' \<mapsto> VObjectID 1)"
  proof
    assume "[''_id'' \<mapsto> VObjectID 1, ''age'' \<mapsto> VInt32 42] =
            (heap age_world 30)(''_id'' \<mapsto> VObjectID 1)"
    then have "[''_id'' \<mapsto> VObjectID 1, ''age'' \<mapsto> VInt32 42] ''age'' =
               ((heap age_world 30)(''_id'' \<mapsto> VObjectID 1)) ''age''"
      by (rule arg_cong)
    then show False by (simp add: age)
  qed
  show ?thesis
    by (simp add: f ins get' age age_no_id d)
qed

section \<open>Overwriting on a collision\<close>

text \<open>
  Claim C3.  When the steps before the transaction succeed and the bucket already holds a
  record under the document's key, \<open>InsertOne\<close> still returns the identifier and no error.
  The engine changes by exactly one \<open>Update\<close> whose body is the single \<open>Put\<close>: afterwards the
  bucket holds the new document under the key, and the set of keys is the same as before.
\<close>

theorem InsertOne_overwrites:
  assumes "prepare E s doc = (s1, Return (idv, bid, bdoc))"
    and "is_open c s" and "keyspace c s = Some b" and "storable bid bdoc"
    and "b bid = Some old"
  shows "\<exists>s'. Collection_InsertOne E c s doc = (s', Return idv) \<and>
           engines s' = (engines s)(db (c_db c) :=
              fst (DB_Update (engines s (db (c_db c))) (put_body (c_name c) bid bdoc))) \<and>
           keyspace c s' = Some (b(bid \<mapsto> bdoc)) \<and>
           dom (b(bid \<mapsto> bdoc)) = dom b"
proof -
  let ?s' = "s1\<lparr>engines := (engines s1)(db (c_db c) :=
                  (engines s1 (db (c_db c)))\<lparr>buckets :=
                     (buckets (engines s1 (db (c_db c))))(c_name c \<mapsto> b(bid \<mapsto> bdoc))\<rparr>)\<rparr>"
  have ins: "Collection_InsertOne E c s doc = (?s', Return idv)"
    using assms(1-4) by (rule InsertOne_stores)
  have e: "engines s1 = engines s" using assms(1) by (rule prepare_engines)
  have tx: "buckets (engines s (db (c_db c))) (c_name c) = Some b"
    using assms(3) by (simp add: keyspace_def)
  have pb: "put_body (c_name c) bid bdoc (buckets (engines s (db (c_db c)))) =
              ((buckets (engines s (db (c_db c))))(c_name c \<mapsto> b(bid \<mapsto> bdoc)), Return ())"
    using tx assms(4) by (rule put_body_ok)
  have up: "fst (DB_Update (engines s (db (c_db c))) (put_body (c_name c) bid bdoc)) =
              (engines s (db (c_db c)))\<lparr>buckets :=
                 (buckets (engines s (db (c_db c))))(c_name c \<mapsto> b(bid \<mapsto> bdoc))\<rparr>"
    using assms(2) by (simp add: DB_Update_def is_open_def pb)
  have en: "engines ?s' = (engines s)(db (c_db c) :=
              fst (DB_Update (engines s (db (c_db c))) (put_body (c_name c) bid bdoc)))"
    by (simp add: e up)
  have ks: "keyspace c ?s' = Some (b(bid \<mapsto> bdoc))"
    by (simp add: keyspace_def)
  have dm: "dom (b(bid \<mapsto> bdoc)) = dom b"
    using assms(5) by auto
  from ins en ks dm show ?thesis by blast
qed

theorem InsertOne_overwrites_witness:
  "is_open users demo_world_Cy \<and>
   keyspace users demo_world_Cy = Some [int_bytes 42 \<mapsto> 4 # int_bytes 42 @ [67, 121]] \<and>
   (\<exists>s'. Collection_InsertOne demo_env users demo_world_Cy (VMap (Some 20)) = (s', Return (VInt 42)) \<and>
      engines s' = (engines demo_world_Cy)(db (c_db users) :=
         fst (DB_Update (engines demo_world_Cy (db (c_db users)))
                (put_body (c_name users) (int_bytes 42) (4 # int_bytes 42 @ [66, 111])))) \<and>
      keyspace users s' =
        Some ([int_bytes 42 \<mapsto> 4 # int_bytes 42 @ [67, 121]]
                (int_bytes 42 \<mapsto> 4 # int_bytes 42 @ [66, 111])) \<and>
      dom ([int_bytes 42 \<mapsto> 4 # int_bytes 42 @ [67, 121]]
             (int_bytes 42 \<mapsto> 4 # int_bytes 42 @ [66, 111])) =
        dom [int_bytes 42 \<mapsto> 4 # int_bytes 42 @ [67, 121 :: 8 word]])"
proof -
  have op: "is_open users demo_world_Cy"
    by (simp add: is_open_def users_def demo_world_Cy_def)
  have ks: "keyspace users demo_world_Cy = Some [int_bytes 42 \<mapsto> 4 # int_bytes 42 @ [67, 121]]"
    by (simp add: keyspace_def users_def demo_world_Cy_def)
  have st: "storable (int_bytes 42) (4 # int_bytes 42 @ [66, 111])"
    by (simp add: storable_def demo_int_bytes_42 MaxKeySize_def MaxValueSize_def)
  have old: "[int_bytes 42 \<mapsto> 4 # int_bytes 42 @ [67, 121 :: 8 word]] (int_bytes 42) =
               Some (4 # int_bytes 42 @ [67, 121])"
    by simp
  from InsertOne_overwrites [OF demo_prepare_Bo op ks st old] op ks
  show ?thesis by blast
qed

section \<open>Rejecting other shapes\<close>

text \<open>
  Claim C4.  A document that is neither a struct nor a map is to be refused with
  \<open>ErrInvalidType\<close>.  The nil interface is such a document, and for it the call panics
  instead (the state is unchanged).  Every other such document is refused as described, by
  \<open>InsertOne_rejects_other_kinds\<close>.
\<close>

theorem InsertOne_nil_at_demo:
  "Collection_InsertOne demo_env users demo_world VNil = (demo_world, Panic NilPointerDereference)"
  by (simp add: Collection_InsertOne_def prepare_def normalize_def)

section \<open>Reading an absent identifier\<close>

text \<open>
  Claim C5.  \<open>GetByID\<close> of an identifier that encodes and has no stored record is to fail
  with a not-found error.  It does so when the bucket exists (\<open>GetByID_absent\<close>).  After
  \<open>Drop\<close> the collection has no bucket, so no identifier has a stored record; there the call
  does not return the error: it dereferences the nil bucket and panics.
\<close>

theorem GetByID_after_Drop_panics:
  "keyspace users demo_world = Some Map.empty \<and>
   snd (Collection_Drop users demo_world) = Return () \<and>
   keyspace users (fst (Collection_Drop users demo_world)) = None \<and>
   MarshalValue demo_env (heap (fst (Collection_Drop users demo_world))) (VInt 7) =
     Inr (int_bytes 7) \<and>
   Collection_GetByID demo_env users (fst (Collection_Drop users demo_world)) (VInt 7) =
     (fst (Collection_Drop users demo_world), Panic NilPointerDereference)"
proof -
  let ?s = "fst (Collection_Drop users demo_world)"
  have d: "snd (Collection_Drop users demo_world) = Return ()"
    by (simp add: Collection_Drop_def DB_Update_def Tx_DeleteBucket_def users_def demo_db_def
        demo_world_def)
  have k: "keyspace users ?s = None"
    by (simp add: Collection_Drop_def DB_Update_def Tx_DeleteBucket_def users_def demo_db_def
        demo_world_def keyspace_def)
  have op: "is_open users ?s"
    by (simp add: Collection_Drop_def DB_Update_def Tx_DeleteBucket_def users_def demo_db_def
        demo_world_def is_open_def)
  have mv: "MarshalValue demo_env (heap ?s) (VInt 7) = Inr (int_bytes 7)"
    by (simp add: demo_env_def demo_MarshalValue_def)
  from GetByID_without_bucket [OF mv op k] d k mv demo_keyspace show ?thesis by simp
qed

section \<open>FindOne and InsertMany\<close>

text \<open>
  Claim C6.  \<open>FindOne\<close> is to return the first matching document, or fail with a not-found
  error when no record matches.  On the empty collection no record matches, and the call
  returns the nil result with no error.
\<close>

theorem FindOne_empty_collection:
  "keyspace users demo_world = Some Map.empty \<and>
   Collection_FindOne users demo_world (VMap (Some 10)) VNil = (demo_world, Return None)"
  by (simp add: Collection_FindOne_def demo_keyspace)

text \<open>
  Claim C7.  \<open>InsertMany\<close> is to insert every document and return one identifier per
  document.  For a list of one document the call returns the nil slice, of length zero and
  no error, and the collection stays empty.
\<close>

theorem InsertMany_one_document:
  "Collection_InsertMany users demo_world [VMap (Some 10)] = (demo_world, Return []) \<and>
   keyspace users demo_world = Some Map.empty"
  by (simp add: Collection_InsertMany_def demo_keyspace)

section \<open>Opening a collection\<close>

text \<open>
  Claim C8.  \<open>Collection\<close> fails with \<open>ErrEmptyBucketName\<close> exactly when the name is empty.
  For a non-empty name on an open database it returns a handle whose name is that name and
  whose database is the receiver; afterwards the bucket exists, empty if it was created and
  with its records untouched if it existed; the other buckets are as before; and calling it
  again returns the same handle and changes nothing.
\<close>

theorem Database_Collection_spec:
  "(snd (Database_Collection d s n) = Fail ErrEmptyBucketName \<longleftrightarrow> n = []) \<and>
   (n \<noteq> [] \<longrightarrow> opened (engines s (db d)) \<longrightarrow>
      (\<exists>s' c. Database_Collection d s n = (s', Return c) \<and>
         Collection_Name c = n \<and> Collection_Database c = d \<and>
         keyspace c s' =
           Some (case buckets (engines s (db d)) n of None \<Rightarrow> Map.empty | Some b \<Rightarrow> b) \<and>
         (\<forall>n'. n' \<noteq> n \<longrightarrow> buckets (engines s' (db d)) n' = buckets (engines s (db d)) n') \<and>
         Database_Collection d s' n = (s', Return c)))"
proof (intro conjI impI)
  show "snd (Database_Collection d s n) = Fail ErrEmptyBucketName \<longleftrightarrow> n = []"
    by (auto simp: Database_Collection_def DB_Update_def Tx_CreateBucketIfNotExists_def
        split: option.splits)
next
  assume n: "n \<noteq> []" and op: "opened (engines s (db d))"
  let ?c = "\<lparr>c_db = d, c_name = n\<rparr>"
  show "\<exists>s' c. Database_Collection d s n = (s', Return c) \<and>
         Collection_Name c = n \<and> Collection_Database c = d \<and>
         keyspace c s' =
           Some (case buckets (engines s (db d)) n of None \<Rightarrow> Map.empty | Some b \<Rightarrow> b) \<and>
         (\<forall>n'. n' \<noteq> n \<longrightarrow> buckets (engines s' (db d)) n' = buckets (engines s (db d)) n') \<and>
         Database_Collection d s' n = (s', Return c)"
  proof (cases "buckets (engines s (db d)) n")
    case None
    let ?s' = "s\<lparr>engines := (engines s)(db d :=
                 (engines s (db d))\<lparr>buckets := (buckets (engines s (db d)))(n \<mapsto> Map.empty)\<rparr>)\<rparr>"
    have 1: "Database_Collection d s n = (?s', Return ?c)"
      using n op None
      by (simp add: Database_Collection_def DB_Update_def Tx_CreateBucketIfNotExists_def)
    have 2: "Database_Collection d ?s' n = (?s', Return ?c)"
      using n op
      by (simp add: Database_Collection_def DB_Update_def Tx_CreateBucketIfNotExists_def)
    have 3: "keyspace ?c ?s' = Some Map.empty"
      by (simp add: keyspace_def)
    show ?thesis
      apply (rule exI [of _ ?s'], rule exI [of _ ?c])
      using 1 2 3 None
      by (simp add: Collection_Name_def Collection_Database_def)
  next
    case (Some b)
    have 1: "Database_Collection d s n = (s, Return ?c)"
      using n op Some
      by (simp add: Database_Collection_def DB_Update_def Tx_CreateBucketIfNotExists_def)
    have 3: "keyspace ?c s = Some b"
      using Some by (simp add: keyspace_def)
    show ?thesis
      apply (rule exI [of _ s], rule exI [of _ ?c])
      using 1 3 Some
      by (simp add: Collection_Name_def Collection_Database_def)
  qed
qed

theorem Database_Collection_spec_witness:
  "''orders'' \<noteq> [] \<and> opened (engines demo_world (db demo_db)) \<and>
   snd (Database_Collection demo_db demo_world ''orders'') \<noteq> Fail ErrEmptyBucketName \<and>
   (\<exists>s' c. Database_Collection demo_db demo_world ''orders'' = (s', Return c) \<and>
      Collection_Name c = ''orders'' \<and> Collection_Database c = demo_db \<and>
      keyspace c s' =
        Some (case buckets (engines demo_world (db demo_db)) ''orders'' of
                None \<Rightarrow> Map.empty | Some b \<Rightarrow> b) \<and>
      buckets (engines s' (db demo_db)) ''users'' =
        buckets (engines demo_world (db demo_db)) ''users'' \<and>
      Database_Collection demo_db s' ''orders'' = (s', Return c))"
proof -
  have n: "''orders'' \<noteq> []" by simp
  have op: "opened (engines demo_world (db demo_db))"
    by (simp add: demo_world_def)
  have u: "''users'' \<noteq> ''orders''" by simp
  note ex = Database_Collection_spec [of demo_db demo_world "''orders''", THEN conjunct2,
      THEN mp, THEN mp, OF n op]
  then obtain s' c where
    r: "Database_Collection demo_db demo_world ''orders'' = (s', Return c)" and
    nm: "Collection_Name c = ''orders''" and d: "Collection_Database c = demo_db" and
    k: "keyspace c s' =
          Some (case buckets (engines demo_world (db demo_db)) ''orders'' of
                  None \<Rightarrow> Map.empty | Some b \<Rightarrow> b)" and
    o: "\<forall>n'. n' \<noteq> ''orders'' \<longrightarrow>
          buckets (engines s' (db demo_db)) n' = buckets (engines demo_world (db demo_db)) n'" and
    i: "Database_Collection demo_db s' ''orders'' = (s', Return c)"
    by (elim exE conjE)
  have o': "buckets (engines s' (db demo_db)) ''users'' =
      buckets (engines demo_world (db demo_db)) ''users''"
    by (rule o [rule_format, OF u])
  have e: "snd (Database_Collection demo_db demo_world ''orders'') \<noteq> Fail ErrEmptyBucketName"
    by (simp add: r)
  show ?thesis
    by (intro conjI exI [of _ s'] exI [of _ c] n op e r nm d k o' i)
qed

end
